theory Spec2Isabelle
  imports Complex_Main "HOL-Library.Multiset"
begin

section \<open>Values of the two worlds\<close>

text \<open>
  The server is JavaScript (Express handlers in \<^verbatim>\<open>routes/users.js\<close>,
  \<^verbatim>\<open>routes/wishlist.js\<close>, \<^verbatim>\<open>server.js\<close>) on top of an SQLite file whose
  schema is created in \<^verbatim>\<open>db.js\<close>. A request body is whatever JSON the client sent, so a
  property of it is any JavaScript value. Numbers are kept to the integral ones, without
  a bound; objects and arrays as property values are left out.
\<close>

datatype jsval = JUndefined | JNull | JBool bool | JNum int | JStr string

text \<open>
  A parsed body: reading a property that is absent yields \<^verbatim>\<open>undefined\<close>. \<open>obj\<close>
  builds one from its properties, each listed once.
\<close>

type_synonym js_object = "string \<Rightarrow> jsval"

definition obj :: "(string \<times> jsval) list \<Rightarrow> js_object" where
  "obj kvs k = (case map_of kvs k of None \<Rightarrow> JUndefined | Some v \<Rightarrow> v)"

text \<open>JavaScript truthiness, and \<^verbatim>\<open>a || b\<close>.\<close>

fun truthy :: "jsval \<Rightarrow> bool" where
  "truthy JUndefined = False"
| "truthy JNull = False"
| "truthy (JBool b) = b"
| "truthy (JNum n) = (n \<noteq> 0)"
| "truthy (JStr s) = (s \<noteq> [])"

definition js_or :: "jsval \<Rightarrow> jsval \<Rightarrow> jsval" where
  "js_or a b = (if truthy a then a else b)"

text \<open>
  What a column holds: SQLite's storage classes NULL, INTEGER, REAL and TEXT (nothing
  here produces a BLOB). A REAL is kept as the rational number it stands for. The
  columns that hold numbers all have INTEGER or NUMERIC affinity, which stores a number
  without a fraction as INTEGER: \<open>SReal\<close> is for the numbers with a fraction.
\<close>

datatype sqlval = SNull | SInt int | SReal rat | SText string

text \<open>
  The driver binds a statement parameter by its JavaScript type: \<^verbatim>\<open>undefined\<close> is left
  unbound, which SQLite reads as NULL; a boolean goes in as 0 or 1.
\<close>

fun bind_param :: "jsval \<Rightarrow> sqlval" where
  "bind_param JUndefined = SNull"
| "bind_param JNull = SNull"
| "bind_param (JBool b) = SInt (if b then 1 else 0)"
| "bind_param (JNum n) = SInt n"
| "bind_param (JStr s) = SText s"

text \<open>
  Column affinity. A column declared INTEGER (or DATETIME, which has NUMERIC affinity)
  turns a text that reads as a number into that number and keeps any other text; a
  column declared TEXT turns a number into its text. Which texts read as which number
  (SQLite accepts blanks around a numeral, a sign, a fraction, an exponent), and how a
  number is written as text, is SQLite's and the driver's business and not fixed by
  this repository: both are taken as parameters, so that everything below holds for any
  such reading. \<open>numeric_of_text s = None\<close> stands for a text that does not read as a
  number and is kept as it is.
\<close>

record engine =
  numeric_of_text :: "string \<Rightarrow> rat option"
  text_of_integer :: "int \<Rightarrow> string"
  text_of_real :: "rat \<Rightarrow> string"

text \<open>A number as a numeric column stores it: INTEGER when it has no fraction.\<close>

definition number :: "rat \<Rightarrow> sqlval" where
  "number r = (if r = of_int \<lfloor>r\<rfloor> then SInt \<lfloor>r\<rfloor> else SReal r)"

fun numeric_affinity :: "engine \<Rightarrow> sqlval \<Rightarrow> sqlval" where
  "numeric_affinity E (SText s) =
     (case numeric_of_text E s of None \<Rightarrow> SText s | Some r \<Rightarrow> number r)"
| "numeric_affinity E (SReal r) = number r"
| "numeric_affinity E v = v"

fun text_affinity :: "engine \<Rightarrow> sqlval \<Rightarrow> sqlval" where
  "text_affinity E (SInt n) = SText (text_of_integer E n)"
| "text_affinity E (SReal r) = SText (text_of_real E r)"
| "text_affinity E v = v"

text \<open>\<^verbatim>\<open>a = b\<close> in a WHERE clause holds only of two equal values that are not NULL.\<close>

definition sql_eq :: "sqlval \<Rightarrow> sqlval \<Rightarrow> bool" where
  "sql_eq a b = (a \<noteq> SNull \<and> a = b)"

text \<open>
  The order ORDER BY sorts by: NULL first, then the numbers by value, INTEGER and REAL
  alike, then the texts byte by byte, a proper prefix before its extensions.
\<close>

fun text_le :: "string \<Rightarrow> string \<Rightarrow> bool" where
  "text_le [] t = True"
| "text_le (c # s) [] = False"
| "text_le (c # s) (d # t) =
     ((of_char c :: nat) < of_char d \<or> (c = d \<and> text_le s t))"

fun sql_le :: "sqlval \<Rightarrow> sqlval \<Rightarrow> bool" where
  "sql_le SNull b = True"
| "sql_le (SInt m) SNull = False"
| "sql_le (SInt m) (SInt n) = (m \<le> n)"
| "sql_le (SInt m) (SReal q) = (of_int m \<le> q)"
| "sql_le (SInt m) (SText t) = True"
| "sql_le (SReal r) SNull = False"
| "sql_le (SReal r) (SInt n) = (r \<le> of_int n)"
| "sql_le (SReal r) (SReal q) = (r \<le> q)"
| "sql_le (SReal r) (SText t) = True"
| "sql_le (SText s) (SText t) = text_le s t"
| "sql_le (SText s) b = False"

section \<open>The database file\<close>

text \<open>
  The two tables of \<^verbatim>\<open>db.js\<close>. \<^verbatim>\<open>id INTEGER PRIMARY KEY AUTOINCREMENT\<close> is the
  rowid, always an integer; every other column can hold any value its constraints allow.
\<close>

record user_row =
  users_id :: int
  username :: sqlval
  email :: sqlval
  created_at :: sqlval

record wishlist_row =
  wishlist_id :: int
  user_id :: sqlval
  country_code :: sqlval
  country_name :: sqlval
  rating :: sqlval
  notes' :: sqlval
  added_date :: sqlval

text \<open>
  A table that has not been created is \<open>None\<close>. The rows are kept in rowid order. The
  two counters are the entries of \<^verbatim>\<open>sqlite_sequence\<close> that AUTOINCREMENT maintains:
  the largest rowid handed out so far in each table.
\<close>

record database =
  users_table :: "user_row list option"
  wishlist_table :: "wishlist_row list option"
  users_seq :: int
  wishlist_seq :: int

definition new_database :: database where
  "new_database = \<lparr>users_table = None, wishlist_table = None, users_seq = 0, wishlist_seq = 0\<rparr>"

definition next_rowid :: "int \<Rightarrow> int list \<Rightarrow> int" where
  "next_rowid seq ids = max seq (fold max ids 0) + 1"

datatype db_error = NoSuchTable string | NotNull string | Unique "string list"

fun commas :: "string list \<Rightarrow> string" where
  "commas [] = []"
| "commas [c] = c"
| "commas (c # cs) = c @ '', '' @ commas cs"

text \<open>The \<^verbatim>\<open>err.message\<close> the driver hands to the callback.\<close>

fun message :: "db_error \<Rightarrow> string" where
  "message (NoSuchTable t) = ''SQLITE_ERROR: no such table: '' @ t"
| "message (NotNull c) = ''SQLITE_CONSTRAINT: NOT NULL constraint failed: '' @ c"
| "message (Unique cs) = ''SQLITE_CONSTRAINT: UNIQUE constraint failed: '' @ commas cs"

subsection \<open>Schema initialization (\<^verbatim>\<open>db.js\<close>)\<close>

text \<open>\<^verbatim>\<open>CREATE TABLE IF NOT EXISTS\<close>: an existing table is left alone.\<close>

definition create_users :: "database \<Rightarrow> database" where
  "create_users db =
     (case users_table db of None \<Rightarrow> db\<lparr>users_table := Some []\<rparr> | Some us \<Rightarrow> db)"

definition create_wishlist :: "database \<Rightarrow> database" where
  "create_wishlist db =
     (case wishlist_table db of None \<Rightarrow> db\<lparr>wishlist_table := Some []\<rparr> | Some ws \<Rightarrow> db)"

text \<open>
  \<^verbatim>\<open>INSERT OR IGNORE INTO users (username, email) VALUES ('demo', 'demo@example.com')\<close>:
  the row is skipped when its username or its email is already taken (both columns are
  UNIQUE). The rowid drawn for a skipped row is not handed out again. \<open>now\<close> is the
  reading of CURRENT_TIMESTAMP.
\<close>

definition demo_taken :: "user_row \<Rightarrow> bool" where
  "demo_taken u = (username u = SText ''demo'' \<or> email u = SText ''demo@example.com'')"

definition insert_demo :: "engine \<Rightarrow> string \<Rightarrow> database \<Rightarrow> database" where
  "insert_demo E now db =
     (case users_table db of
        None \<Rightarrow> db
      | Some us \<Rightarrow>
          (let i = next_rowid (users_seq db) (map users_id us) in
           if list_ex demo_taken us then db\<lparr>users_seq := i\<rparr>
           else db\<lparr>users_table := Some (us @
                    [\<lparr>users_id = i, username = SText ''demo'',
                      email = SText ''demo@example.com'',
                      created_at = numeric_affinity E (SText now)\<rparr>]),
                   users_seq := i\<rparr>))"

text \<open>\<^verbatim>\<open>db.serialize\<close> runs the three statements in order.\<close>

definition initialize :: "engine \<Rightarrow> string \<Rightarrow> database \<Rightarrow> database" where
  "initialize E now db = insert_demo E now (create_wishlist (create_users db))"

subsection \<open>The statements of the handlers\<close>

text \<open>
  A statement either fails, leaving the file as it was, or succeeds with the new file
  and what the driver exposes as \<^verbatim>\<open>this.lastID\<close> or \<^verbatim>\<open>this.changes\<close>. NOT NULL
  is checked column by column before the UNIQUE indexes are probed. The FOREIGN KEY
  clause of \<^verbatim>\<open>wishlist\<close> is not enforced: nothing in the repository turns the
  \<^verbatim>\<open>foreign_keys\<close> pragma on.
\<close>

text \<open>\<^verbatim>\<open>SELECT * FROM users WHERE id = ?\<close>, read with \<^verbatim>\<open>db.get\<close>: the first row.\<close>

definition select_user :: "engine \<Rightarrow> sqlval \<Rightarrow> database \<Rightarrow> db_error + user_row option" where
  "select_user E p db =
     (case users_table db of
        None \<Rightarrow> Inl (NoSuchTable ''users'')
      | Some us \<Rightarrow> Inr (find (\<lambda>u. sql_eq (SInt (users_id u)) (numeric_affinity E p)) us))"

text \<open>
  \<^verbatim>\<open>INSERT INTO users (username, email) VALUES (?, ?)\<close>. Of the two UNIQUE indexes
  the one on email is probed first.
\<close>

definition insert_user ::
  "engine \<Rightarrow> string \<Rightarrow> sqlval \<Rightarrow> sqlval \<Rightarrow> database \<Rightarrow> db_error + database \<times> int" where
  "insert_user E now p_username p_email db =
     (case users_table db of
        None \<Rightarrow> Inl (NoSuchTable ''users'')
      | Some us \<Rightarrow>
          (let n = text_affinity E p_username; m = text_affinity E p_email;
               i = next_rowid (users_seq db) (map users_id us) in
           if n = SNull then Inl (NotNull ''users.username'')
           else if m = SNull then Inl (NotNull ''users.email'')
           else if list_ex (\<lambda>u. email u = m) us then Inl (Unique [''users.email''])
           else if list_ex (\<lambda>u. username u = n) us then Inl (Unique [''users.username''])
           else Inr (db\<lparr>users_table := Some (us @
                       [\<lparr>users_id = i, username = n, email = m,
                         created_at = numeric_affinity E (SText now)\<rparr>]),
                      users_seq := i\<rparr>, i)))"

text \<open>
  The WHERE clause shared by the wishlist statements. The parameter compared with the
  INTEGER column \<^verbatim>\<open>user_id\<close> is read as a number where it can be; the one compared
  with the TEXT column \<^verbatim>\<open>country_code\<close> as text.
\<close>

definition of_user :: "engine \<Rightarrow> sqlval \<Rightarrow> wishlist_row \<Rightarrow> bool" where
  "of_user E p w = sql_eq (user_id w) (numeric_affinity E p)"

definition of_country :: "engine \<Rightarrow> sqlval \<Rightarrow> wishlist_row \<Rightarrow> bool" where
  "of_country E p w = sql_eq (country_code w) (text_affinity E p)"

definition of_user_country :: "engine \<Rightarrow> sqlval \<Rightarrow> sqlval \<Rightarrow> wishlist_row \<Rightarrow> bool" where
  "of_user_country E p q w = (of_user E p w \<and> of_country E q w)"

text \<open>\<^verbatim>\<open>ORDER BY added_date DESC\<close>, as an insertion sort into descending order.\<close>

fun insert_desc :: "wishlist_row \<Rightarrow> wishlist_row list \<Rightarrow> wishlist_row list" where
  "insert_desc w [] = [w]"
| "insert_desc w (x # xs) =
     (if sql_le (added_date w) (added_date x) then x # insert_desc w xs else w # x # xs)"

definition order_by_added_date_desc :: "wishlist_row list \<Rightarrow> wishlist_row list" where
  "order_by_added_date_desc ws = foldr insert_desc ws []"

text \<open>\<^verbatim>\<open>SELECT * FROM wishlist WHERE user_id = ? ORDER BY added_date DESC\<close>.\<close>

definition select_wishlist ::
  "engine \<Rightarrow> sqlval \<Rightarrow> database \<Rightarrow> db_error + wishlist_row list" where
  "select_wishlist E p db =
     (case wishlist_table db of
        None \<Rightarrow> Inl (NoSuchTable ''wishlist'')
      | Some ws \<Rightarrow> Inr (order_by_added_date_desc (filter (of_user E p) ws)))"

text \<open>
  \<^verbatim>\<open>INSERT INTO wishlist (user_id, country_code, country_name, rating, notes)
  VALUES (?, ?, ?, ?, ?)\<close>. \<^verbatim>\<open>added_date\<close> is not listed and takes its default.
\<close>

definition insert_wishlist ::
  "engine \<Rightarrow> string \<Rightarrow> sqlval \<Rightarrow> sqlval \<Rightarrow> sqlval \<Rightarrow> sqlval \<Rightarrow> sqlval \<Rightarrow> database
     \<Rightarrow> db_error + database \<times> int" where
  "insert_wishlist E now p_user p_code p_name p_rating p_notes db =
     (case wishlist_table db of
        None \<Rightarrow> Inl (NoSuchTable ''wishlist'')
      | Some ws \<Rightarrow>
          (let u = numeric_affinity E p_user; c = text_affinity E p_code;
               n = text_affinity E p_name;
               i = next_rowid (wishlist_seq db) (map wishlist_id ws) in
           if u = SNull then Inl (NotNull ''wishlist.user_id'')
           else if c = SNull then Inl (NotNull ''wishlist.country_code'')
           else if n = SNull then Inl (NotNull ''wishlist.country_name'')
           else if list_ex (\<lambda>w. user_id w = u \<and> country_code w = c) ws
             then Inl (Unique [''wishlist.user_id'', ''wishlist.country_code''])
           else Inr (db\<lparr>wishlist_table := Some (ws @
                       [\<lparr>wishlist_id = i, user_id = u, country_code = c, country_name = n,
                         rating = numeric_affinity E p_rating,
                         notes' = text_affinity E p_notes,
                         added_date = numeric_affinity E (SText now)\<rparr>]),
                      wishlist_seq := i\<rparr>, i)))"

text \<open>
  \<^verbatim>\<open>UPDATE wishlist SET rating = ?, notes = ? WHERE user_id = ? AND country_code = ?\<close>.
  \<^verbatim>\<open>this.changes\<close> counts the rows the WHERE clause selected.
\<close>

definition update_wishlist ::
  "engine \<Rightarrow> sqlval \<Rightarrow> sqlval \<Rightarrow> sqlval \<Rightarrow> sqlval \<Rightarrow> database \<Rightarrow> db_error + database \<times> nat" where
  "update_wishlist E p_rating p_notes p_user p_code db =
     (case wishlist_table db of
        None \<Rightarrow> Inl (NoSuchTable ''wishlist'')
      | Some ws \<Rightarrow>
          Inr (db\<lparr>wishlist_table := Some (map (\<lambda>w.
                     if of_user_country E p_user p_code w
                     then w\<lparr>rating := numeric_affinity E p_rating,
                            notes' := text_affinity E p_notes\<rparr>
                     else w) ws)\<rparr>,
               length (filter (of_user_country E p_user p_code) ws)))"

text \<open>\<^verbatim>\<open>DELETE FROM wishlist WHERE user_id = ? AND country_code = ?\<close>.\<close>

definition delete_wishlist ::
  "engine \<Rightarrow> sqlval \<Rightarrow> sqlval \<Rightarrow> database \<Rightarrow> db_error + database \<times> nat" where
  "delete_wishlist E p_user p_code db =
     (case wishlist_table db of
        None \<Rightarrow> Inl (NoSuchTable ''wishlist'')
      | Some ws \<Rightarrow>
          Inr (db\<lparr>wishlist_table := Some (filter (\<lambda>w. \<not> of_user_country E p_user p_code w) ws)\<rparr>,
               length (filter (of_user_country E p_user p_code) ws)))"

section \<open>The handlers\<close>

text \<open>
  What a handler passes to \<^verbatim>\<open>res.json\<close>: an object literal, the rows of a
  \<^verbatim>\<open>db.all\<close>, or the row of a \<^verbatim>\<open>db.get\<close>. \<^verbatim>\<open>res.json\<close> alone answers with
  status 200.
\<close>

datatype payload = Obj "(string \<times> jsval) list" | Rows "wishlist_row list" | Row user_row

record response =
  status :: nat
  payload :: payload

definition res_json :: "nat \<Rightarrow> payload \<Rightarrow> response" where
  "res_json code p = \<lparr>status = code, payload = p\<rparr>"

definition error_json :: "nat \<Rightarrow> db_error \<Rightarrow> response" where
  "error_json code err = res_json code (Obj [(''error'', JStr (message err))])"

subsection \<open>\<^verbatim>\<open>routes/users.js\<close>\<close>

text \<open>\<^verbatim>\<open>router.get('/:id')\<close>: \<^verbatim>\<open>res.json(row || {})\<close>.\<close>

definition get_user :: "engine \<Rightarrow> string \<Rightarrow> database \<Rightarrow> database \<times> response" where
  "get_user E id' db =
     (case select_user E (SText id') db of
        Inl err \<Rightarrow> (db, error_json 500 err)
      | Inr row \<Rightarrow> (db, res_json 200 (case row of None \<Rightarrow> Obj [] | Some u \<Rightarrow> Row u)))"

text \<open>\<^verbatim>\<open>router.post('/')\<close>.\<close>

definition post_user :: "engine \<Rightarrow> string \<Rightarrow> js_object \<Rightarrow> database \<Rightarrow> database \<times> response" where
  "post_user E now req_body db =
     (case insert_user E now (bind_param (req_body ''username''))
             (bind_param (req_body ''email'')) db of
        Inl err \<Rightarrow> (db, error_json 400 err)
      | Inr (db', lastID) \<Rightarrow>
          (db', res_json 200 (Obj [(''id'', JNum lastID),
                                   (''username'', req_body ''username''),
                                   (''email'', req_body ''email'')])))"

subsection \<open>\<^verbatim>\<open>routes/wishlist.js\<close>\<close>

text \<open>\<^verbatim>\<open>router.get('/:userId')\<close>.\<close>

definition get_wishlist :: "engine \<Rightarrow> string \<Rightarrow> database \<Rightarrow> database \<times> response" where
  "get_wishlist E userId db =
     (case select_wishlist E (SText userId) db of
        Inl err \<Rightarrow> (db, error_json 500 err)
      | Inr rows \<Rightarrow> (db, res_json 200 (Rows rows)))"

text \<open>
  \<^verbatim>\<open>router.post('/:userId')\<close>: the parameters are
  \<^verbatim>\<open>[req.params.userId, country_code, country_name, rating || 0, notes || '']\<close>.
\<close>

definition post_wishlist ::
  "engine \<Rightarrow> string \<Rightarrow> string \<Rightarrow> js_object \<Rightarrow> database \<Rightarrow> database \<times> response" where
  "post_wishlist E now userId req_body db =
     (case insert_wishlist E now (SText userId)
             (bind_param (req_body ''country_code''))
             (bind_param (req_body ''country_name''))
             (bind_param (js_or (req_body ''rating'') (JNum 0)))
             (bind_param (js_or (req_body ''notes'') (JStr []))) db of
        Inl err \<Rightarrow> (db, error_json 400 err)
      | Inr (db', lastID) \<Rightarrow>
          (db', res_json 200 (Obj [(''id'', JNum lastID),
                                   (''user_id'', JStr userId),
                                   (''country_code'', req_body ''country_code''),
                                   (''country_name'', req_body ''country_name''),
                                   (''rating'', js_or (req_body ''rating'') (JNum 0)),
                                   (''notes'', js_or (req_body ''notes'') (JStr []))])))"

text \<open>\<^verbatim>\<open>router.put('/:userId/:countryCode')\<close>.\<close>

definition put_wishlist ::
  "engine \<Rightarrow> string \<Rightarrow> string \<Rightarrow> js_object \<Rightarrow> database \<Rightarrow> database \<times> response" where
  "put_wishlist E userId countryCode req_body db =
     (case update_wishlist E (bind_param (req_body ''rating''))
             (bind_param (req_body ''notes'')) (SText userId) (SText countryCode) db of
        Inl err \<Rightarrow> (db, error_json 400 err)
      | Inr (db', changes) \<Rightarrow> (db', res_json 200 (Obj [(''updated'', JNum (int changes))])))"

text \<open>\<^verbatim>\<open>router.delete('/:userId/:countryCode')\<close>.\<close>

definition delete_wishlist_item ::
  "engine \<Rightarrow> string \<Rightarrow> string \<Rightarrow> database \<Rightarrow> database \<times> response" where
  "delete_wishlist_item E userId countryCode db =
     (case delete_wishlist E (SText userId) (SText countryCode) db of
        Inl err \<Rightarrow> (db, error_json 400 err)
      | Inr (db', changes) \<Rightarrow> (db', res_json 200 (Obj [(''deleted'', JNum (int changes))])))"

subsection \<open>The countries proxy of \<^verbatim>\<open>server.js\<close>\<close>

text \<open>
  \<^verbatim>\<open>await axios.get(url)\<close> either resolves with the data of the external source or
  throws. The external source is a parameter: what it answers to each URL.
\<close>

datatype 'j axios = Rejected | Resolved 'j

datatype 'j proxied = Passed 'j | Failed string

definition countries :: "(string \<Rightarrow> 'j axios) \<Rightarrow> nat \<times> 'j proxied" where
  "countries axios_get =
     (case axios_get ''https://restcountries.com/v3.1/all'' of
        Resolved data \<Rightarrow> (200, Passed data)
      | Rejected \<Rightarrow> (500, Failed ''Failed to fetch countries''))"

definition countries_search :: "(string \<Rightarrow> 'j axios) \<Rightarrow> string \<Rightarrow> nat \<times> 'j proxied" where
  "countries_search axios_get name =
     (case axios_get (''https://restcountries.com/v3.1/name/'' @ name) of
        Resolved data \<Rightarrow> (200, Passed data)
      | Rejected \<Rightarrow> (404, Failed ''Country not found''))"

definition countries_region :: "(string \<Rightarrow> 'j axios) \<Rightarrow> string \<Rightarrow> nat \<times> 'j proxied" where
  "countries_region axios_get region =
     (case axios_get (''https://restcountries.com/v3.1/region/'' @ region) of
        Resolved data \<Rightarrow> (200, Passed data)
      | Rejected \<Rightarrow> (404, Failed ''Region not found''))"

section \<open>The life of the database file\<close>

text \<open>
  The file outlives the process: every start of the server runs the initialization of
  \<^verbatim>\<open>db.js\<close> on whatever the file holds, and requests come in between. Each event
  that may read CURRENT_TIMESTAMP carries that reading.
\<close>

datatype event =
    Startup string
  | GetUser string
  | PostUser string js_object
  | GetWishlist string
  | PostWishlist string string js_object
  | PutWishlist string string js_object
  | DeleteWishlist string string

fun after :: "engine \<Rightarrow> event \<Rightarrow> database \<Rightarrow> database" where
  "after E (Startup now) db = initialize E now db"
| "after E (GetUser i) db = fst (get_user E i db)"
| "after E (PostUser now b) db = fst (post_user E now b db)"
| "after E (GetWishlist u) db = fst (get_wishlist E u db)"
| "after E (PostWishlist now u b) db = fst (post_wishlist E now u b db)"
| "after E (PutWishlist u c b) db = fst (put_wishlist E u c b db)"
| "after E (DeleteWishlist u c) db = fst (delete_wishlist_item E u c db)"

definition run :: "engine \<Rightarrow> event list \<Rightarrow> database \<Rightarrow> database" where
  "run E evs db = fold (after E) evs db"

text \<open>
  An engine for evaluating examples: it reads the plain decimal numerals, with an
  optional minus sign and an optional fraction, and writes numbers in the same form.
\<close>

fun read_digits :: "string \<Rightarrow> nat \<Rightarrow> nat option" where
  "read_digits [] acc = Some acc"
| "read_digits (c # cs) acc =
     (if 48 \<le> (of_char c :: nat) \<and> (of_char c :: nat) \<le> 57
      then read_digits cs (10 * acc + (of_char c - 48)) else None)"

definition read_unsigned :: "string \<Rightarrow> rat option" where
  "read_unsigned s =
     (let whole = takeWhile (\<lambda>c. c \<noteq> CHR ''.'') s;
          fraction = drop 1 (dropWhile (\<lambda>c. c \<noteq> CHR ''.'') s)
      in if whole = [] \<and> fraction = [] then None
         else case (read_digits whole 0, read_digits fraction 0) of
                (Some a, Some b) \<Rightarrow> Some (of_nat a + of_nat b / 10 ^ length fraction)
              | _ \<Rightarrow> None)"

fun read_decimal :: "string \<Rightarrow> rat option" where
  "read_decimal [] = None"
| "read_decimal (c # cs) =
     (if c = CHR ''-'' then map_option uminus (read_unsigned cs) else read_unsigned (c # cs))"

function write_digits :: "nat \<Rightarrow> string" where
  "write_digits n =
     (if n < 10 then [char_of (48 + n)] else write_digits (n div 10) @ [char_of (48 + n mod 10)])"
  by pat_completeness auto
termination
  by (relation "measure id") auto

definition write_decimal :: "int \<Rightarrow> string" where
  "write_decimal i = (if i < 0 then CHR ''-'' # write_digits (nat (- i)) else write_digits (nat i))"

text \<open>
  A number with a fraction, as its whole part, a point and three digits. No example
  needs it: the numbers of a body are bound as INTEGER.
\<close>

definition write_real :: "rat \<Rightarrow> string" where
  "write_real r =
     (if r < 0 then [CHR ''-''] else []) @ write_digits (nat \<lfloor>\<bar>r\<bar>\<rfloor>) @ ''.''
       @ drop 1 (write_digits (1000 + nat \<lfloor>(\<bar>r\<bar> - of_int \<lfloor>\<bar>r\<bar>\<rfloor>) * 1000\<rfloor>))"

definition decimal_engine :: engine where
  "decimal_engine = \<lparr>numeric_of_text = read_decimal, text_of_integer = write_decimal,
                      text_of_real = write_real\<rparr>"

section \<open>Sample data\<close>

text \<open>
  The file after the first start of the server, and the same file with two entries on
  the demo user's wishlist.
\<close>

definition demo_db :: database where
  "demo_db = \<lparr>users_table = Some [\<lparr>users_id = 1, username = SText ''demo'',
                   email = SText ''demo@example.com'', created_at = SText ''2024-01-01 09:00:00''\<rparr>],
               wishlist_table = Some [], users_seq = 1, wishlist_seq = 0\<rparr>"

definition france :: wishlist_row where
  "france = \<lparr>wishlist_id = 1, user_id = SInt 1, country_code = SText ''FR'',
              country_name = SText ''France'', rating = SInt 4, notes' = SText ''Paris'',
              added_date = SText ''2024-02-01 10:00:00''\<rparr>"

definition japan :: wishlist_row where
  "japan = \<lparr>wishlist_id = 2, user_id = SInt 1, country_code = SText ''JP'',
             country_name = SText ''Japan'', rating = SInt 0, notes' = SText [],
             added_date = SText ''2024-03-01 10:00:00''\<rparr>"

definition wished_db :: database where
  "wished_db = demo_db\<lparr>wishlist_table := Some [france, japan], wishlist_seq := 2\<rparr>"

text \<open>An external source that knows one country and nothing else.\<close>

definition restcountries :: "string \<Rightarrow> string axios" where
  "restcountries url =
     (if url = ''https://restcountries.com/v3.1/name/peru'' then Resolved ''PE''
      else Rejected)"

section \<open>Properties of the file\<close>

text \<open>The UNIQUE constraint of \<^verbatim>\<open>wishlist\<close>, as a property of a file.\<close>

definition one_per_user_country :: "database \<Rightarrow> bool" where
  "one_per_user_country db =
     (case wishlist_table db of
        None \<Rightarrow> True
      | Some ws \<Rightarrow> distinct (map (\<lambda>w. (user_id w, country_code w)) ws))"

text \<open>The rows of \<^verbatim>\<open>users\<close>, none when the table is missing, and the seed rows among them.\<close>

definition user_rows :: "database \<Rightarrow> user_row list" where
  "user_rows db = (case users_table db of None \<Rightarrow> [] | Some us \<Rightarrow> us)"

definition demo_users :: "database \<Rightarrow> user_row list" where
  "demo_users db =
     filter (\<lambda>u. username u = SText ''demo'' \<and> email u = SText ''demo@example.com'') (user_rows db)"

text \<open>What one event does to the rows of \<open>users\<close>: nothing, or one row more.\<close>

definition users_grow :: "database \<Rightarrow> database \<Rightarrow> bool" where
  "users_grow d d' =
     (user_rows d' = user_rows d
      \<or> (\<exists>u. user_rows d' = user_rows d @ [u]
             \<and> users_id u \<notin> set (map users_id (user_rows d))
             \<and> username u \<notin> set (map username (user_rows d))))"

text \<open>The primary key and the UNIQUE constraint on \<^verbatim>\<open>username\<close>.\<close>

definition users_keys :: "database \<Rightarrow> bool" where
  "users_keys db =
     (distinct (map users_id (user_rows db)) \<and> distinct (map username (user_rows db)))"

text \<open>
  A file on which the initialization has run: both tables exist and the seed row, or a
  row that made the seed insert skip, is there.
\<close>

definition initialized :: "database \<Rightarrow> bool" where
  "initialized db = (wishlist_table db \<noteq> None \<and> list_ex demo_taken (user_rows db))"

text \<open>Descending order of \<^verbatim>\<open>added_date\<close>.\<close>

abbreviation newest_first :: "wishlist_row \<Rightarrow> wishlist_row \<Rightarrow> bool" where
  "newest_first a b \<equiv> sql_le (added_date b) (added_date a)"

section \<open>Auxiliary facts\<close>

subsection \<open>The sort order\<close>

lemma text_le_total: "text_le s t \<or> text_le t s"
  by (induction s t rule: text_le.induct) auto

lemma text_le_trans: "text_le s t \<Longrightarrow> text_le t u \<Longrightarrow> text_le s u"
proof (induction s t arbitrary: u rule: text_le.induct)
  case (1 t)
  then show ?case by simp
next
  case (2 c s)
  then show ?case by simp
next
  case (3 c s d t)
  then show ?case by (cases u) auto
qed

lemma sql_le_total: "sql_le a b \<or> sql_le b a"
proof (cases a; cases b)
  fix s t assume "a = SText s" "b = SText t"
  then show ?thesis using text_le_total [of s t] by simp
qed auto

lemma sql_le_trans: "sql_le a b \<Longrightarrow> sql_le b c \<Longrightarrow> sql_le a c"
  by (cases a; cases b; cases c) (auto intro: text_le_trans)

lemma set_insert_desc: "set (insert_desc w xs) = insert w (set xs)"
  by (induction xs) auto

lemma mset_insert_desc: "mset (insert_desc w xs) = add_mset w (mset xs)"
  by (induction xs) auto

lemma sorted_insert_desc:
  "sorted_wrt newest_first xs \<Longrightarrow> sorted_wrt newest_first (insert_desc w xs)"
proof (induction xs)
  case Nil
  then show ?case by simp
next
  case (Cons x xs)
  show ?case
  proof (cases "sql_le (added_date w) (added_date x)")
    case True
    with Cons show ?thesis by (auto simp: set_insert_desc)
  next
    case False
    then have "sql_le (added_date x) (added_date w)"
      using sql_le_total by blast
    with Cons.prems False show ?thesis
      by (auto intro: sql_le_trans)
  qed
qed

lemma mset_order_by: "mset (order_by_added_date_desc ws) = mset ws"
  by (induction ws) (simp_all add: order_by_added_date_desc_def mset_insert_desc)

lemma sorted_order_by: "sorted_wrt newest_first (order_by_added_date_desc ws)"
  by (induction ws) (simp_all add: order_by_added_date_desc_def sorted_insert_desc)

subsection \<open>Statements on an existing table\<close>

lemma insert_wishlist_Some:
  assumes "wishlist_table db = Some ws"
  shows "insert_wishlist E now pu pc pn pr pt db =
     (if numeric_affinity E pu = SNull then Inl (NotNull ''wishlist.user_id'')
      else if text_affinity E pc = SNull then Inl (NotNull ''wishlist.country_code'')
      else if text_affinity E pn = SNull then Inl (NotNull ''wishlist.country_name'')
      else if list_ex (\<lambda>w. user_id w = numeric_affinity E pu \<and> country_code w = text_affinity E pc) ws
        then Inl (Unique [''wishlist.user_id'', ''wishlist.country_code''])
      else Inr (db\<lparr>wishlist_table := Some (ws @
                  [\<lparr>wishlist_id = next_rowid (wishlist_seq db) (map wishlist_id ws),
                    user_id = numeric_affinity E pu, country_code = text_affinity E pc,
                    country_name = text_affinity E pn,
                    rating = numeric_affinity E pr, notes' = text_affinity E pt,
                    added_date = numeric_affinity E (SText now)\<rparr>]),
                 wishlist_seq := next_rowid (wishlist_seq db) (map wishlist_id ws)\<rparr>,
                next_rowid (wishlist_seq db) (map wishlist_id ws)))"
  using assms by (simp add: insert_wishlist_def Let_def)

lemma insert_user_Some:
  assumes "users_table db = Some us"
  shows "insert_user E now pn pm db =
     (if text_affinity E pn = SNull then Inl (NotNull ''users.username'')
      else if text_affinity E pm = SNull then Inl (NotNull ''users.email'')
      else if list_ex (\<lambda>u. email u = text_affinity E pm) us then Inl (Unique [''users.email''])
      else if list_ex (\<lambda>u. username u = text_affinity E pn) us
        then Inl (Unique [''users.username''])
      else Inr (db\<lparr>users_table := Some (us @
                  [\<lparr>users_id = next_rowid (users_seq db) (map users_id us),
                    username = text_affinity E pn, email = text_affinity E pm,
                    created_at = numeric_affinity E (SText now)\<rparr>]),
                 users_seq := next_rowid (users_seq db) (map users_id us)\<rparr>,
                next_rowid (users_seq db) (map users_id us)))"
  using assms by (simp add: insert_user_def Let_def)

lemma database_same_wishlist:
  "wishlist_table db = Some ws \<Longrightarrow> db\<lparr>wishlist_table := Some ws\<rparr> = db"
  by (cases db) simp

lemma filter_none: "\<forall>x\<in>set xs. \<not> P x \<Longrightarrow> filter P xs = []"
  by (induction xs) auto

lemma find_primary_key:
  assumes "distinct (map users_id us)" and "u \<in> set us"
  shows "find (\<lambda>v. users_id v = users_id u) us = Some u"
  using assms
proof (induction us)
  case Nil
  then show ?case by simp
next
  case (Cons x xs)
  then show ?case by (auto simp: image_iff)
qed

subsection \<open>Row identifiers\<close>

lemma fold_max_ge: "(a::int) \<le> fold max xs a"
proof (induction xs arbitrary: a)
  case Nil
  then show ?case by simp
next
  case (Cons x xs)
  have "a \<le> max x a" by simp
  also have "\<dots> \<le> fold max xs (max x a)" by (rule Cons.IH)
  finally show ?case by simp
qed

lemma fold_max_mem: "(x::int) \<in> set xs \<Longrightarrow> x \<le> fold max xs a"
proof (induction xs arbitrary: a)
  case Nil
  then show ?case by simp
next
  case (Cons y ys)
  show ?case
  proof (cases "x = y")
    case True
    have "x \<le> max y a" using True by simp
    also have "\<dots> \<le> fold max ys (max y a)" by (rule fold_max_ge)
    finally show ?thesis by simp
  next
    case False
    with Cons.prems have "x \<in> set ys" by simp
    then show ?thesis using Cons.IH by simp
  qed
qed

lemma next_rowid_fresh: "next_rowid seq ids \<notin> set ids"
proof
  assume "next_rowid seq ids \<in> set ids"
  then have "next_rowid seq ids \<le> fold max ids 0" by (rule fold_max_mem)
  then show False by (simp add: next_rowid_def)
qed

subsection \<open>Invariants of the file\<close>

lemma run_invariant:
  assumes "P db" and "\<And>ev d. P d \<Longrightarrow> P (after E ev d)"
  shows "P (run E evs db)"
  unfolding run_def using assms(1)
proof (induction evs arbitrary: db)
  case Nil
  then show ?case by simp
next
  case (Cons ev evs)
  then show ?case using assms(2) by simp
qed

lemma wishlist_table_initialize:
  "wishlist_table (initialize E now db) =
     (case wishlist_table db of None \<Rightarrow> Some [] | Some ws \<Rightarrow> Some ws)"
  by (simp add: initialize_def insert_demo_def create_wishlist_def create_users_def Let_def
           split: option.splits)

lemma one_per_insert:
  assumes "insert_wishlist E now pu pc pn pr pt d = Inr (d', i)" and "one_per_user_country d"
  shows "one_per_user_country d'"
proof -
  from assms(1) obtain ws where ws: "wishlist_table d = Some ws"
    by (auto simp: insert_wishlist_def split: option.splits)
  let ?u = "numeric_affinity E pu" and ?c = "text_affinity E pc"
  from assms(1) ws have fresh: "\<not> list_ex (\<lambda>w. user_id w = ?u \<and> country_code w = ?c) ws"
    by (auto simp: insert_wishlist_def Let_def split: if_splits)
  from assms(1) ws obtain w where
    d': "wishlist_table d' = Some (ws @ [w])" and w: "user_id w = ?u" "country_code w = ?c"
    by (auto simp: insert_wishlist_def Let_def split: if_splits)
  from fresh w have "(user_id w, country_code w) \<notin> set (map (\<lambda>w. (user_id w, country_code w)) ws)"
    by (auto simp: list_ex_iff)
  with assms(2) ws d' show ?thesis
    by (simp add: one_per_user_country_def)
qed

lemma wishlist_table_post_user:
  "wishlist_table (fst (post_user E now b d)) = wishlist_table d"
proof (cases "users_table d")
  case None
  then show ?thesis by (simp add: post_user_def insert_user_def)
next
  case (Some us)
  show ?thesis
    unfolding post_user_def insert_user_Some[OF Some] by simp
qed

lemma one_per_after: "one_per_user_country d \<Longrightarrow> one_per_user_country (after E ev d)"
proof (cases ev)
  case (Startup now)
  assume "one_per_user_country d"
  then show ?thesis using Startup
    by (simp add: one_per_user_country_def wishlist_table_initialize split: option.splits)
next
  case (GetUser i)
  assume "one_per_user_country d"
  then show ?thesis using GetUser by (simp add: get_user_def split: sum.splits)
next
  case (PostUser now b)
  assume "one_per_user_country d"
  then show ?thesis using PostUser
    by (simp add: one_per_user_country_def wishlist_table_post_user)
next
  case (GetWishlist u)
  assume "one_per_user_country d"
  then show ?thesis using GetWishlist by (simp add: get_wishlist_def split: sum.splits)
next
  case (PostWishlist now u b)
  assume inv: "one_per_user_country d"
  show ?thesis
  proof (cases "insert_wishlist E now (SText u) (bind_param (b ''country_code''))
             (bind_param (b ''country_name''))
             (bind_param (js_or (b ''rating'') (JNum 0)))
             (bind_param (js_or (b ''notes'') (JStr []))) d")
    case (Inl e)
    then show ?thesis using inv PostWishlist by (simp add: post_wishlist_def)
  next
    case (Inr r)
    obtain d' i where r: "r = (d', i)" by (cases r)
    from one_per_insert[OF Inr[unfolded r] inv]
    have "one_per_user_country d'" .
    then show ?thesis using Inr r PostWishlist by (simp add: post_wishlist_def)
  qed
next
  case (PutWishlist u c b)
  assume "one_per_user_country d"
  then show ?thesis using PutWishlist
    by (auto simp: put_wishlist_def update_wishlist_def one_per_user_country_def comp_def
                   if_distrib[of "\<lambda>w. (user_id w, country_code w)"]
             split: option.splits cong: if_cong)
next
  case (DeleteWishlist u c)
  assume "one_per_user_country d"
  then show ?thesis using DeleteWishlist
    by (auto simp: delete_wishlist_item_def delete_wishlist_def one_per_user_country_def
                   distinct_map_filter
             split: option.splits)
qed

lemma one_per_reachable: "one_per_user_country (run E evs new_database)"
proof (rule run_invariant)
  show "one_per_user_country new_database"
    by (simp add: one_per_user_country_def new_database_def)
qed (rule one_per_after)

lemma users_grow_insert_demo: "users_grow d (insert_demo E now d)"
proof (cases "users_table d")
  case None
  then show ?thesis by (simp add: insert_demo_def users_grow_def)
next
  case (Some us)
  show ?thesis
  proof (cases "list_ex demo_taken us")
    case True
    then show ?thesis using Some
      by (simp add: insert_demo_def users_grow_def user_rows_def Let_def)
  next
    case False
    then have "SText ''demo'' \<notin> set (map username us)"
      by (auto simp: list_ex_iff demo_taken_def)
    then show ?thesis using Some False next_rowid_fresh [of "users_seq d" "map users_id us"]
      by (simp add: insert_demo_def users_grow_def user_rows_def Let_def)
  qed
qed

lemma user_rows_create: "user_rows (create_wishlist (create_users d)) = user_rows d"
  by (simp add: create_wishlist_def create_users_def user_rows_def split: option.splits)

lemma users_grow_initialize: "users_grow d (initialize E now d)"
  using users_grow_insert_demo [of "create_wishlist (create_users d)" E now]
  by (simp add: initialize_def users_grow_def user_rows_create)

lemma users_grow_post_user: "users_grow d (fst (post_user E now b d))"
proof (cases "users_table d")
  case None
  then show ?thesis by (simp add: post_user_def insert_user_def users_grow_def)
next
  case (Some us)
  let ?n = "text_affinity E (bind_param (b ''username''))"
  have "\<not> list_ex (\<lambda>u. username u = ?n) us \<Longrightarrow> ?n \<notin> set (map username us)"
    by (auto simp: list_ex_iff)
  then show ?thesis
    unfolding post_user_def insert_user_Some[OF Some]
    using Some next_rowid_fresh [of "users_seq d" "map users_id us"]
    by (simp add: users_grow_def user_rows_def)
qed

lemma users_table_post_wishlist:
  "users_table (fst (post_wishlist E now u b d)) = users_table d"
proof (cases "wishlist_table d")
  case None
  then show ?thesis by (simp add: post_wishlist_def insert_wishlist_def)
next
  case (Some ws)
  show ?thesis
    unfolding post_wishlist_def insert_wishlist_Some[OF Some] by simp
qed

lemma users_table_put_wishlist:
  "users_table (fst (put_wishlist E u c b d)) = users_table d"
  by (simp add: put_wishlist_def update_wishlist_def split: option.splits)

lemma users_table_delete_wishlist:
  "users_table (fst (delete_wishlist_item E u c d)) = users_table d"
  by (simp add: delete_wishlist_item_def delete_wishlist_def split: option.splits)

lemma users_grow_after: "users_grow d (after E ev d)"
proof (cases ev)
  case (Startup now)
  then show ?thesis by (simp add: users_grow_initialize)
next
  case (GetUser i)
  then show ?thesis by (simp add: get_user_def users_grow_def split: sum.splits)
next
  case (PostUser now b)
  then show ?thesis by (simp add: users_grow_post_user)
next
  case (GetWishlist u)
  then show ?thesis by (simp add: get_wishlist_def users_grow_def split: sum.splits)
next
  case (PostWishlist now u b)
  then show ?thesis by (simp add: users_grow_def user_rows_def users_table_post_wishlist)
next
  case (PutWishlist u c b)
  then show ?thesis by (simp add: users_grow_def user_rows_def users_table_put_wishlist)
next
  case (DeleteWishlist u c)
  then show ?thesis by (simp add: users_grow_def user_rows_def users_table_delete_wishlist)
qed

lemma users_keys_after: "users_keys d \<Longrightarrow> users_keys (after E ev d)"
  using users_grow_after [of d E ev]
  by (auto simp: users_keys_def users_grow_def)

lemma users_keys_reachable: "users_keys (run E evs new_database)"
proof (rule run_invariant)
  show "users_keys new_database"
    by (simp add: users_keys_def user_rows_def new_database_def)
qed (rule users_keys_after)

lemma at_most_one_with_key:
  "distinct (map f xs) \<Longrightarrow> length (filter (\<lambda>x. f x = k \<and> Q x) xs) \<le> 1"
proof (induction xs)
  case Nil
  then show ?case by simp
next
  case (Cons x xs)
  show ?case
  proof (cases "f x = k")
    case True
    with Cons.prems have "\<forall>y\<in>set xs. f y \<noteq> k" by (auto simp: image_iff)
    then have "filter (\<lambda>x. f x = k \<and> Q x) xs = []"
      by (simp add: filter_empty_conv)
    then show ?thesis by simp
  next
    case False
    with Cons show ?thesis by simp
  qed
qed

lemma initialized_initialize: "initialized (initialize E now db)"
  by (auto simp: initialized_def initialize_def insert_demo_def create_wishlist_def
                 create_users_def user_rows_def Let_def demo_taken_def
           split: option.splits)

lemma wishlist_table_after: "wishlist_table d \<noteq> None \<Longrightarrow> wishlist_table (after E ev d) \<noteq> None"
proof (cases ev)
  case (Startup now)
  assume "wishlist_table d \<noteq> None"
  then show ?thesis using Startup by (auto simp: wishlist_table_initialize)
next
  case (GetUser i)
  assume "wishlist_table d \<noteq> None"
  then show ?thesis using GetUser by (simp add: get_user_def split: sum.splits)
next
  case (PostUser now b)
  assume "wishlist_table d \<noteq> None"
  then show ?thesis using PostUser by (simp add: wishlist_table_post_user)
next
  case (GetWishlist u)
  assume "wishlist_table d \<noteq> None"
  then show ?thesis using GetWishlist by (simp add: get_wishlist_def split: sum.splits)
next
  case (PostWishlist now u b)
  assume "wishlist_table d \<noteq> None"
  then obtain ws where ws: "wishlist_table d = Some ws" by auto
  have "wishlist_table (fst (post_wishlist E now u b d)) \<noteq> None"
    unfolding post_wishlist_def insert_wishlist_Some[OF ws] by (simp add: ws)
  then show ?thesis using PostWishlist by simp
next
  case (PutWishlist u c b)
  assume "wishlist_table d \<noteq> None"
  then show ?thesis using PutWishlist
    by (auto simp: put_wishlist_def update_wishlist_def)
next
  case (DeleteWishlist u c)
  assume "wishlist_table d \<noteq> None"
  then show ?thesis using DeleteWishlist
    by (auto simp: delete_wishlist_item_def delete_wishlist_def)
qed

lemma initialized_after: "initialized d \<Longrightarrow> initialized (after E ev d)"
  using users_grow_after [of d E ev] wishlist_table_after [of d E ev]
  by (auto simp: initialized_def users_grow_def)

lemma initialize_initialized:
  assumes "initialized db"
  shows "users_table (initialize E now db) = users_table db"
    and "wishlist_table (initialize E now db) = wishlist_table db"
proof -
  from assms obtain us ws where t: "users_table db = Some us" "wishlist_table db = Some ws"
    "list_ex demo_taken us"
    by (auto simp: initialized_def user_rows_def split: option.splits)
  then show "users_table (initialize E now db) = users_table db"
    by (simp add: initialize_def insert_demo_def create_wishlist_def create_users_def Let_def)
  from t show "wishlist_table (initialize E now db) = wishlist_table db"
    by (simp add: wishlist_table_initialize)
qed

lemma users_primary_key_reachable:
  "users_table (run E evs new_database) = Some us \<Longrightarrow> distinct (map users_id us)"
  using users_keys_reachable [of E evs] by (simp add: users_keys_def user_rows_def)

subsection \<open>Numbers and their spellings\<close>

text \<open>
  A numeric column never stores a number without a fraction as REAL, so two stored
  numbers are the same number exactly when they are the same value.
\<close>

lemma number_of_int: "number (of_int n) = SInt n"
  by (simp add: number_def)

lemma number_SReal: "number r = SReal q \<Longrightarrow> q = r \<and> r \<noteq> of_int \<lfloor>r\<rfloor>"
  by (auto simp: number_def split: if_splits)

lemma numeric_affinity_SReal:
  "numeric_affinity E v = SReal q \<Longrightarrow> q \<noteq> of_int \<lfloor>q\<rfloor>"
proof (cases v)
  case (SText s)
  assume "numeric_affinity E v = SReal q"
  then show ?thesis using SText number_SReal
    by (auto split: option.splits)
next
  case (SReal r)
  assume "numeric_affinity E v = SReal q"
  then show ?thesis using SReal number_SReal by auto
qed auto

text \<open>
  \<^verbatim>\<open>1.5\<close> and \<^verbatim>\<open>1.50\<close> in the path are one user: the second request for the same
  country is rejected by the UNIQUE constraint.
\<close>

lemma same_number_same_user:
  "post_wishlist decimal_engine ''2024-04-02 08:00:00'' ''1.50''
      (obj [(''country_code'', JStr ''FR''), (''country_name'', JStr ''France'')])
      (fst (post_wishlist decimal_engine ''2024-04-01 08:00:00'' ''1.5''
         (obj [(''country_code'', JStr ''FR''), (''country_name'', JStr ''France'')]) demo_db))
   = (fst (post_wishlist decimal_engine ''2024-04-01 08:00:00'' ''1.5''
         (obj [(''country_code'', JStr ''FR''), (''country_name'', JStr ''France'')]) demo_db),
      \<lparr>status = 400, payload = Obj [(''error'', JStr
         ''SQLITE_CONSTRAINT: UNIQUE constraint failed: wishlist.user_id, wishlist.country_code'')]\<rparr>)"
  by (simp add: post_wishlist_def insert_wishlist_def demo_db_def obj_def js_or_def
                error_json_def res_json_def decimal_engine_def read_unsigned_def number_def
                next_rowid_def Let_def)

subsection \<open>The sample data is reachable\<close>

lemma demo_db_reachable:
  "demo_db = run decimal_engine [Startup ''2024-01-01 09:00:00''] new_database"
  by (simp add: run_def initialize_def create_users_def create_wishlist_def insert_demo_def
                new_database_def demo_db_def next_rowid_def decimal_engine_def read_unsigned_def number_def Let_def)

lemma wished_db_reachable:
  "wished_db = run decimal_engine
      [PostWishlist ''2024-02-01 10:00:00'' ''1''
         (obj [(''country_code'', JStr ''FR''), (''country_name'', JStr ''France''),
               (''rating'', JNum 4), (''notes'', JStr ''Paris'')]),
       PostWishlist ''2024-03-01 10:00:00'' ''1''
         (obj [(''country_code'', JStr ''JP''), (''country_name'', JStr ''Japan'')])]
      (initialize decimal_engine ''2024-01-01 09:00:00'' new_database)"
  by (simp add: run_def initialize_def create_users_def create_wishlist_def insert_demo_def
                new_database_def wished_db_def demo_db_def france_def japan_def
                post_wishlist_def insert_wishlist_def obj_def js_or_def
                next_rowid_def decimal_engine_def read_unsigned_def number_def Let_def Let_def)

section \<open>The claims\<close>

text \<open>
  C1, as amended. Posting a wishlist entry for a user and a country code that some row
  already carries is rejected: the file stays as it was and the answer is status 400
  with the message of the constraint that failed. That is the UNIQUE constraint on
  \<^verbatim>\<open>(user_id, country_code)\<close> for every request that carries a country name; a request
  without one is rejected by the NOT NULL constraint on \<^verbatim>\<open>country_name\<close>, which is
  checked first. And whatever starts and requests a file has seen since it was created,
  no two of its wishlist rows share user and country code.
\<close>

theorem duplicate_wishlist_entry_rejected:
  assumes "wishlist_table db = Some ws" and "w \<in> set ws"
    and "of_user_country E (SText userId) (bind_param (req_body ''country_code'')) w"
  shows "post_wishlist E now userId req_body db =
           (db, res_json 400 (Obj [(''error'', JStr (message
              (if text_affinity E (bind_param (req_body ''country_name'')) = SNull
               then NotNull ''wishlist.country_name''
               else Unique [''wishlist.user_id'', ''wishlist.country_code''])))]))
         \<and> one_per_user_country (run E evs new_database)"
proof -
  let ?u = "numeric_affinity E (SText userId)"
  let ?c = "text_affinity E (bind_param (req_body ''country_code''))"
  from assms(3) have key: "user_id w = ?u" "country_code w = ?c" "?u \<noteq> SNull" "?c \<noteq> SNull"
    by (auto simp: of_user_country_def of_user_def of_country_def sql_eq_def)
  with assms(2) have dup: "list_ex (\<lambda>w. user_id w = ?u \<and> country_code w = ?c) ws"
    by (auto simp: list_ex_iff)
  have "post_wishlist E now userId req_body db =
           (db, error_json 400
              (if text_affinity E (bind_param (req_body ''country_name'')) = SNull
               then NotNull ''wishlist.country_name''
               else Unique [''wishlist.user_id'', ''wishlist.country_code'']))"
    unfolding post_wishlist_def insert_wishlist_Some[OF assms(1)]
    using key(3,4) dup by simp
  then show ?thesis
    using one_per_reachable by (simp add: error_json_def)
qed

text \<open>The demo user asks for Japan a second time, writing the user id as \<^verbatim>\<open>01\<close>.\<close>

theorem duplicate_wishlist_entry_rejected_witness:
  "wishlist_table wished_db = Some [france, japan] \<and> japan \<in> set [france, japan]
   \<and> of_user_country decimal_engine (SText ''01'') (bind_param (JStr ''JP'')) japan
   \<and> post_wishlist decimal_engine ''2024-04-01 08:00:00'' ''01''
        (obj [(''country_code'', JStr ''JP''), (''country_name'', JStr ''Japan''), (''rating'', JNum 5)])
        wished_db =
       (wished_db, \<lparr>status = 400, payload = Obj [(''error'', JStr
          ''SQLITE_CONSTRAINT: UNIQUE constraint failed: wishlist.user_id, wishlist.country_code'')]\<rparr>)"
proof -
  let ?b = "obj [(''country_code'', JStr ''JP''), (''country_name'', JStr ''Japan''), (''rating'', JNum 5)]"
  have t: "wishlist_table wished_db = Some [france, japan]"
    by (simp add: wished_db_def)
  have m: "japan \<in> set [france, japan]" by simp
  have k: "of_user_country decimal_engine (SText ''01'') (bind_param (?b ''country_code'')) japan"
    by (simp add: of_user_country_def of_user_def of_country_def sql_eq_def japan_def
                  decimal_engine_def read_unsigned_def number_def Let_def obj_def)
  show ?thesis
    using duplicate_wishlist_entry_rejected
            [where req_body = ?b and now = "''2024-04-01 08:00:00''" and evs = "[]", OF t m k] t k
    by (simp add: obj_def res_json_def)
qed

text \<open>
  It is not always the uniqueness constraint that rejects: the demo user asks for France
  a second time and leaves the country name out. The answer is 400 with the message of
  the NOT NULL constraint.
\<close>

theorem duplicate_without_country_name_counterexample:
  "wishlist_table wished_db = Some [france, japan]
   \<and> of_user_country decimal_engine (SText ''1'') (bind_param (JStr ''FR'')) france
   \<and> post_wishlist decimal_engine ''2024-04-01 08:00:00'' ''1''
        (obj [(''country_code'', JStr ''FR'')]) wished_db =
       (wished_db, \<lparr>status = 400, payload = Obj [(''error'', JStr
          ''SQLITE_CONSTRAINT: NOT NULL constraint failed: wishlist.country_name'')]\<rparr>)
   \<and> message (NotNull ''wishlist.country_name'')
       \<noteq> message (Unique [''wishlist.user_id'', ''wishlist.country_code''])"
  by (simp add: post_wishlist_def insert_wishlist_def wished_db_def demo_db_def france_def
                of_user_country_def of_user_def of_country_def sql_eq_def obj_def js_or_def
                error_json_def res_json_def decimal_engine_def read_unsigned_def number_def
                Let_def)

text \<open>
  C2. On a file that has the wishlist table, GET /api/wishlist/:userId answers 200 with
  exactly the rows of that user, each as often as the table holds it, and every row in
  the answer is at least as recent as the rows after it.
\<close>

theorem get_wishlist_newest_first:
  assumes "wishlist_table db = Some ws"
  shows "\<exists>rows. get_wishlist E userId db = (db, res_json 200 (Rows rows))
           \<and> mset rows = mset (filter (of_user E (SText userId)) ws)
           \<and> sorted_wrt (\<lambda>a b. sql_le (added_date b) (added_date a)) rows"
proof -
  let ?rows = "order_by_added_date_desc (filter (of_user E (SText userId)) ws)"
  have "get_wishlist E userId db = (db, res_json 200 (Rows ?rows))"
    using assms by (simp add: get_wishlist_def select_wishlist_def)
  moreover have "mset ?rows = mset (filter (of_user E (SText userId)) ws)"
    by (rule mset_order_by)
  moreover have "sorted_wrt (\<lambda>a b. sql_le (added_date b) (added_date a)) ?rows"
    by (rule sorted_order_by)
  ultimately show ?thesis by blast
qed

theorem get_wishlist_newest_first_witness:
  "wishlist_table wished_db = Some [france, japan]
   \<and> get_wishlist decimal_engine ''1'' wished_db = (wished_db, res_json 200 (Rows [japan, france]))"
proof -
  have t: "wishlist_table wished_db = Some [france, japan]"
    by (simp add: wished_db_def)
  from get_wishlist_newest_first [OF t, of decimal_engine "''1''"]
  obtain rows where r: "get_wishlist decimal_engine ''1'' wished_db = (wished_db, res_json 200 (Rows rows))"
    by blast
  moreover have "get_wishlist decimal_engine ''1'' wished_db = (wished_db, res_json 200 (Rows [japan, france]))"
    by (simp add: get_wishlist_def select_wishlist_def t of_user_def sql_eq_def france_def japan_def
                  decimal_engine_def read_unsigned_def number_def Let_def order_by_added_date_desc_def)
  ultimately show ?thesis using t by simp
qed

text \<open>
  C3, as amended. Whenever POST /api/wishlist/:userId creates a row: a rating that is
  omitted or falsy (\<^verbatim>\<open>null\<close>, \<^verbatim>\<open>false\<close>, \<^verbatim>\<open>0\<close>, the empty string) gives rating 0 in the
  row and in the response, and notes that are omitted or falsy give the empty string in
  both. A truthy rating or notes value is returned as given and stored as the column's
  affinity reads it; an integer rating and a text for notes are stored unchanged.
\<close>

theorem post_wishlist_defaults:
  assumes "post_wishlist E now userId req_body db = (db', res)" and "status res = 200"
  shows "\<exists>ws w kvs. wishlist_table db = Some ws \<and> wishlist_table db' = Some (ws @ [w])
           \<and> payload res = Obj kvs
           \<and> (\<not> truthy (req_body ''rating'') \<longrightarrow>
                 rating w = SInt 0 \<and> map_of kvs ''rating'' = Some (JNum 0))
           \<and> (\<not> truthy (req_body ''notes'') \<longrightarrow>
                 notes' w = SText [] \<and> map_of kvs ''notes'' = Some (JStr []))
           \<and> (truthy (req_body ''rating'') \<longrightarrow>
                 rating w = numeric_affinity E (bind_param (req_body ''rating''))
                 \<and> map_of kvs ''rating'' = Some (req_body ''rating''))
           \<and> (truthy (req_body ''notes'') \<longrightarrow>
                 notes' w = text_affinity E (bind_param (req_body ''notes''))
                 \<and> map_of kvs ''notes'' = Some (req_body ''notes''))
           \<and> (req_body ''rating'' = JNum n \<longrightarrow> rating w = SInt n)
           \<and> (req_body ''notes'' = JStr s \<longrightarrow> notes' w = SText s)"
proof -
  let ?r = "js_or (req_body ''rating'') (JNum 0)"
  let ?t = "js_or (req_body ''notes'') (JStr [])"
  let ?ins = "insert_wishlist E now (SText userId) (bind_param (req_body ''country_code''))
                (bind_param (req_body ''country_name'')) (bind_param ?r) (bind_param ?t) db"
  from assms obtain i where ins: "?ins = Inr (db', i)"
    and res: "res = res_json 200 (Obj [(''id'', JNum i), (''user_id'', JStr userId),
                 (''country_code'', req_body ''country_code''),
                 (''country_name'', req_body ''country_name''),
                 (''rating'', ?r), (''notes'', ?t)])"
    by (auto simp: post_wishlist_def error_json_def res_json_def split: sum.splits)
  from ins obtain ws where ws: "wishlist_table db = Some ws"
    by (auto simp: insert_wishlist_def split: option.splits)
  from ins obtain w where w: "wishlist_table db' = Some (ws @ [w])"
    "rating w = numeric_affinity E (bind_param ?r)" "notes' w = text_affinity E (bind_param ?t)"
    unfolding insert_wishlist_Some[OF ws] by (auto split: if_splits)
  have r0: "\<not> truthy (req_body ''rating'') \<Longrightarrow> ?r = JNum 0"
    and r1: "truthy (req_body ''rating'') \<Longrightarrow> ?r = req_body ''rating''"
    and t0: "\<not> truthy (req_body ''notes'') \<Longrightarrow> ?t = JStr []"
    and t1: "truthy (req_body ''notes'') \<Longrightarrow> ?t = req_body ''notes''"
    by (simp_all add: js_or_def)
  have rn: "req_body ''rating'' = JNum n \<Longrightarrow> bind_param ?r = SInt n"
    by (simp add: js_or_def)
  have ts: "req_body ''notes'' = JStr s \<Longrightarrow> bind_param ?t = SText s"
    by (simp add: js_or_def)
  let ?kvs = "[(''id'', JNum i), (''user_id'', JStr userId),
                 (''country_code'', req_body ''country_code''),
                 (''country_name'', req_body ''country_name''),
                 (''rating'', ?r), (''notes'', ?t)]"
  have k: "payload res = Obj ?kvs" "map_of ?kvs ''rating'' = Some ?r" "map_of ?kvs ''notes'' = Some ?t"
    by (simp_all add: res res_json_def)
  have "(\<not> truthy (req_body ''rating'') \<longrightarrow>
                 rating w = SInt 0 \<and> map_of ?kvs ''rating'' = Some (JNum 0))"
    using w(2) k(2) r0 by simp
  moreover have "(\<not> truthy (req_body ''notes'') \<longrightarrow>
                 notes' w = SText [] \<and> map_of ?kvs ''notes'' = Some (JStr []))"
    using w(3) k(3) t0 by simp
  moreover have "(truthy (req_body ''rating'') \<longrightarrow>
                 rating w = numeric_affinity E (bind_param (req_body ''rating''))
                 \<and> map_of ?kvs ''rating'' = Some (req_body ''rating''))"
    using w(2) k(2) r1 by simp
  moreover have "(truthy (req_body ''notes'') \<longrightarrow>
                 notes' w = text_affinity E (bind_param (req_body ''notes''))
                 \<and> map_of ?kvs ''notes'' = Some (req_body ''notes''))"
    using w(3) k(3) t1 by simp
  moreover have "(req_body ''rating'' = JNum n \<longrightarrow> rating w = SInt n)"
    using w(2) rn by simp
  moreover have "(req_body ''notes'' = JStr s \<longrightarrow> notes' w = SText s)"
    using w(3) ts by simp
  ultimately show ?thesis using ws w(1) k(1) by blast
qed

theorem post_wishlist_defaults_witness:
  "status (snd (post_wishlist decimal_engine ''2024-04-01 08:00:00'' ''1''
       (obj [(''country_code'', JStr ''IT''), (''country_name'', JStr ''Italy'')]) demo_db)) = 200
   \<and> (\<exists>w. wishlist_table (fst (post_wishlist decimal_engine ''2024-04-01 08:00:00'' ''1''
       (obj [(''country_code'', JStr ''IT''), (''country_name'', JStr ''Italy'')]) demo_db)) = Some [w]
         \<and> rating w = SInt 0 \<and> notes' w = SText [])"
proof -
  let ?b = "obj [(''country_code'', JStr ''IT''), (''country_name'', JStr ''Italy'')]"
  let ?p = "post_wishlist decimal_engine ''2024-04-01 08:00:00'' ''1'' ?b demo_db"
  have p: "?p = (fst ?p, snd ?p)" by simp
  have s: "status (snd ?p) = 200"
    by (simp add: post_wishlist_def insert_wishlist_def demo_db_def decimal_engine_def read_unsigned_def number_def Let_def obj_def
                  js_or_def res_json_def Let_def)
  have f: "\<not> truthy (?b ''rating'')" "\<not> truthy (?b ''notes'')"
    by (simp_all add: obj_def)
  from post_wishlist_defaults [OF p s] f
  obtain ws w where "wishlist_table demo_db = Some ws" "wishlist_table (fst ?p) = Some (ws @ [w])"
    "rating w = SInt 0" "notes' w = SText []"
    by blast
  moreover have "wishlist_table demo_db = Some []"
    by (simp add: demo_db_def)
  ultimately have "wishlist_table (fst ?p) = Some [w] \<and> rating w = SInt 0 \<and> notes' w = SText []"
    by simp
  with s show ?thesis by blast
qed

text \<open>
  Not every supplied value is stored as given: a body that supplies the empty string as
  rating and \<^verbatim>\<open>null\<close> as notes gets the defaults instead, in the row and in the
  response, where storing them as given would have left the empty text and NULL.
\<close>

theorem post_wishlist_supplied_falsy_counterexample:
  "post_wishlist decimal_engine ''2024-04-01 08:00:00'' ''1''
     (obj [(''country_code'', JStr ''IT''), (''country_name'', JStr ''Italy''),
           (''rating'', JStr []), (''notes'', JNull)]) demo_db =
     (demo_db\<lparr>wishlist_table := Some
         [\<lparr>wishlist_id = 1, user_id = SInt 1, country_code = SText ''IT'',
           country_name = SText ''Italy'', rating = SInt 0, notes' = SText [],
           added_date = SText ''2024-04-01 08:00:00''\<rparr>],
        wishlist_seq := 1\<rparr>,
      \<lparr>status = 200, payload = Obj [(''id'', JNum 1), (''user_id'', JStr ''1''),
          (''country_code'', JStr ''IT''), (''country_name'', JStr ''Italy''),
          (''rating'', JNum 0), (''notes'', JStr [])]\<rparr>)
   \<and> SInt 0 \<noteq> numeric_affinity decimal_engine (bind_param (JStr []))
   \<and> SText [] \<noteq> text_affinity decimal_engine (bind_param JNull)"
  by (simp add: post_wishlist_def insert_wishlist_def demo_db_def decimal_engine_def read_unsigned_def number_def Let_def obj_def
                js_or_def res_json_def Let_def next_rowid_def)

text \<open>
  C4. DELETE /api/wishlist/:userId/:countryCode for a user and country code that no row
  carries answers 200 with \<^verbatim>\<open>{deleted: 0}\<close> and leaves the file as it was.
\<close>

theorem delete_missing_reports_zero:
  assumes "wishlist_table db = Some ws"
    and "\<forall>w\<in>set ws. \<not> of_user_country E (SText userId) (SText countryCode) w"
  shows "delete_wishlist_item E userId countryCode db =
           (db, res_json 200 (Obj [(''deleted'', JNum 0)]))"
proof -
  let ?P = "of_user_country E (SText userId) (SText countryCode)"
  from assms(2) have none: "filter ?P ws = []"
    by (rule filter_none)
  from assms(2) have all: "filter (\<lambda>w. \<not> ?P w) ws = ws"
    by (simp add: filter_id_conv)
  show ?thesis
    by (simp add: delete_wishlist_item_def delete_wishlist_def assms(1) none all
                  database_same_wishlist)
qed

theorem delete_missing_reports_zero_witness:
  "wishlist_table wished_db = Some [france, japan]
   \<and> \<not> of_user_country decimal_engine (SText ''1'') (SText ''BR'') france
   \<and> \<not> of_user_country decimal_engine (SText ''1'') (SText ''BR'') japan
   \<and> delete_wishlist_item decimal_engine ''1'' ''BR'' wished_db =
        (wished_db, \<lparr>status = 200, payload = Obj [(''deleted'', JNum 0)]\<rparr>)"
proof -
  have t: "wishlist_table wished_db = Some [france, japan]"
    by (simp add: wished_db_def)
  have n: "\<forall>w\<in>set [france, japan]. \<not> of_user_country decimal_engine (SText ''1'') (SText ''BR'') w"
    by (simp add: of_user_country_def of_country_def sql_eq_def france_def japan_def)
  show ?thesis
    using delete_missing_reports_zero [OF t n] t n by (simp add: res_json_def)
qed

text \<open>
  C5. PUT /api/wishlist/:userId/:countryCode changes the wishlist table only: every row
  of that user and country code gets its rating and notes from the request body and
  keeps its id, user id, country code, country name and added date; every other row
  stays as it is, in place. An integer rating and a text for notes are stored unchanged.
\<close>

theorem put_wishlist_frame:
  assumes "wishlist_table db = Some ws"
  shows "\<exists>ws'. put_wishlist E userId countryCode req_body db =
            (db\<lparr>wishlist_table := Some ws'\<rparr>,
             res_json 200 (Obj [(''updated'',
               JNum (int (length (filter (of_user_country E (SText userId) (SText countryCode)) ws))))]))
          \<and> list_all2 (\<lambda>w w'.
               if of_user_country E (SText userId) (SText countryCode) w
               then rating w' = numeric_affinity E (bind_param (req_body ''rating''))
                  \<and> notes' w' = text_affinity E (bind_param (req_body ''notes''))
                  \<and> wishlist_id w' = wishlist_id w \<and> user_id w' = user_id w
                  \<and> country_code w' = country_code w \<and> country_name w' = country_name w
                  \<and> added_date w' = added_date w
               else w' = w) ws ws'
          \<and> (req_body ''rating'' = JNum n \<longrightarrow>
                numeric_affinity E (bind_param (req_body ''rating'')) = SInt n)
          \<and> (req_body ''notes'' = JStr s \<longrightarrow>
                text_affinity E (bind_param (req_body ''notes'')) = SText s)"
proof -
  let ?P = "of_user_country E (SText userId) (SText countryCode)"
  let ?f = "\<lambda>w. if ?P w
              then w\<lparr>rating := numeric_affinity E (bind_param (req_body ''rating'')),
                     notes' := text_affinity E (bind_param (req_body ''notes''))\<rparr>
              else w"
  have "put_wishlist E userId countryCode req_body db =
          (db\<lparr>wishlist_table := Some (map ?f ws)\<rparr>,
           res_json 200 (Obj [(''updated'', JNum (int (length (filter ?P ws))))]))"
    by (simp add: put_wishlist_def update_wishlist_def assms)
  moreover have "list_all2 (\<lambda>w w'.
               if ?P w
               then rating w' = numeric_affinity E (bind_param (req_body ''rating''))
                  \<and> notes' w' = text_affinity E (bind_param (req_body ''notes''))
                  \<and> wishlist_id w' = wishlist_id w \<and> user_id w' = user_id w
                  \<and> country_code w' = country_code w \<and> country_name w' = country_name w
                  \<and> added_date w' = added_date w
               else w' = w) ws (map ?f ws)"
    by (simp add: list_all2_map2 list_all2_same)
  moreover have "req_body ''rating'' = JNum n \<longrightarrow>
                numeric_affinity E (bind_param (req_body ''rating'')) = SInt n"
    by simp
  moreover have "req_body ''notes'' = JStr s \<longrightarrow>
                text_affinity E (bind_param (req_body ''notes'')) = SText s"
    by simp
  ultimately show ?thesis by blast
qed

theorem put_wishlist_frame_witness:
  "wishlist_table wished_db = Some [france, japan]
   \<and> put_wishlist decimal_engine ''1'' ''JP'' (obj [(''rating'', JNum 5), (''notes'', JStr ''spring'')])
        wished_db =
        (wished_db\<lparr>wishlist_table :=
            Some [france, japan\<lparr>rating := SInt 5, notes' := SText ''spring''\<rparr>]\<rparr>,
         \<lparr>status = 200, payload = Obj [(''updated'', JNum 1)]\<rparr>)"
proof -
  let ?b = "obj [(''rating'', JNum 5), (''notes'', JStr ''spring'')]"
  have t: "wishlist_table wished_db = Some [france, japan]"
    by (simp add: wished_db_def)
  have f: "\<not> of_user_country decimal_engine (SText ''1'') (SText ''JP'') france"
    by (simp add: of_user_country_def of_country_def sql_eq_def france_def)
  have j: "of_user_country decimal_engine (SText ''1'') (SText ''JP'') japan"
    by (simp add: of_user_country_def of_user_def of_country_def sql_eq_def japan_def decimal_engine_def read_unsigned_def number_def Let_def)
  from put_wishlist_frame [OF t, where E = decimal_engine and userId = "''1''"
      and countryCode = "''JP''" and req_body = ?b and n = 5 and s = "''spring''"]
  obtain ws' where
    put: "put_wishlist decimal_engine ''1'' ''JP'' ?b wished_db =
            (wished_db\<lparr>wishlist_table := Some ws'\<rparr>,
             res_json 200 (Obj [(''updated'',
               JNum (int (length (filter (of_user_country decimal_engine (SText ''1'') (SText ''JP''))
                  [france, japan]))))]))"
    and rel: "list_all2 (\<lambda>w w'.
               if of_user_country decimal_engine (SText ''1'') (SText ''JP'') w
               then rating w' = numeric_affinity decimal_engine (bind_param (?b ''rating''))
                  \<and> notes' w' = text_affinity decimal_engine (bind_param (?b ''notes''))
                  \<and> wishlist_id w' = wishlist_id w \<and> user_id w' = user_id w
                  \<and> country_code w' = country_code w \<and> country_name w' = country_name w
                  \<and> added_date w' = added_date w
               else w' = w) [france, japan] ws'"
    by blast
  from rel f j have "ws' = [france, japan\<lparr>rating := SInt 5, notes' := SText ''spring''\<rparr>]"
    by (auto simp: list_all2_Cons1 obj_def)
  with put f j t show ?thesis
    by (simp add: res_json_def)
qed

text \<open>
  C6. When the statement of POST, PUT or DELETE on the wishlist, or of POST /api/users,
  fails, the handler answers 400 with the message of that failure and the file stays as
  it was.
\<close>

theorem database_failure_answers_400:
  "(insert_wishlist E now (SText userId) (bind_param (b ''country_code''))
        (bind_param (b ''country_name'')) (bind_param (js_or (b ''rating'') (JNum 0)))
        (bind_param (js_or (b ''notes'') (JStr []))) db = Inl err
      \<longrightarrow> post_wishlist E now userId b db
            = (db, res_json 400 (Obj [(''error'', JStr (message err))])))
   \<and> (update_wishlist E (bind_param (b2 ''rating'')) (bind_param (b2 ''notes''))
        (SText userId2) (SText countryCode2) db2 = Inl err2
      \<longrightarrow> put_wishlist E userId2 countryCode2 b2 db2
            = (db2, res_json 400 (Obj [(''error'', JStr (message err2))])))
   \<and> (delete_wishlist E (SText userId3) (SText countryCode3) db3 = Inl err3
      \<longrightarrow> delete_wishlist_item E userId3 countryCode3 db3
            = (db3, res_json 400 (Obj [(''error'', JStr (message err3))])))
   \<and> (insert_user E now4 (bind_param (b4 ''username'')) (bind_param (b4 ''email'')) db4 = Inl err4
      \<longrightarrow> post_user E now4 b4 db4
            = (db4, res_json 400 (Obj [(''error'', JStr (message err4))])))"
  by (simp add: post_wishlist_def put_wishlist_def delete_wishlist_item_def post_user_def
                error_json_def)

theorem database_failure_answers_400_witness:
  "post_wishlist decimal_engine ''2024-04-01 08:00:00'' ''1''
      (obj [(''country_code'', JStr ''FR'')]) wished_db
     = (wished_db, \<lparr>status = 400, payload = Obj [(''error'', JStr
          ''SQLITE_CONSTRAINT: NOT NULL constraint failed: wishlist.country_name'')]\<rparr>)
   \<and> put_wishlist decimal_engine ''1'' ''FR'' (obj [(''rating'', JNum 3)]) new_database
     = (new_database, \<lparr>status = 400, payload = Obj [(''error'', JStr
          ''SQLITE_ERROR: no such table: wishlist'')]\<rparr>)
   \<and> delete_wishlist_item decimal_engine ''1'' ''FR'' new_database
     = (new_database, \<lparr>status = 400, payload = Obj [(''error'', JStr
          ''SQLITE_ERROR: no such table: wishlist'')]\<rparr>)
   \<and> post_user decimal_engine ''2024-04-01 08:00:00''
        (obj [(''username'', JStr ''ann''), (''email'', JStr ''demo@example.com'')]) demo_db
     = (demo_db, \<lparr>status = 400, payload = Obj [(''error'', JStr
          ''SQLITE_CONSTRAINT: UNIQUE constraint failed: users.email'')]\<rparr>)"
proof -
  let ?b = "obj [(''country_code'', JStr ''FR'')]"
  let ?b2 = "obj [(''rating'', JNum 3)]"
  let ?b4 = "obj [(''username'', JStr ''ann''), (''email'', JStr ''demo@example.com'')]"
  have 1: "insert_wishlist decimal_engine ''2024-04-01 08:00:00'' (SText ''1'')
        (bind_param (?b ''country_code''))
        (bind_param (?b ''country_name'')) (bind_param (js_or (?b ''rating'') (JNum 0)))
        (bind_param (js_or (?b ''notes'') (JStr []))) wished_db
        = Inl (NotNull ''wishlist.country_name'')"
    by (simp add: insert_wishlist_def wished_db_def demo_db_def decimal_engine_def read_unsigned_def number_def Let_def obj_def Let_def)
  have 2: "update_wishlist decimal_engine (bind_param (?b2 ''rating'')) (bind_param (?b2 ''notes''))
        (SText ''1'') (SText ''FR'') new_database = Inl (NoSuchTable ''wishlist'')"
    by (simp add: update_wishlist_def new_database_def)
  have 3: "delete_wishlist decimal_engine (SText ''1'') (SText ''FR'') new_database
        = Inl (NoSuchTable ''wishlist'')"
    by (simp add: delete_wishlist_def new_database_def)
  have 4: "insert_user decimal_engine ''2024-04-01 08:00:00'' (bind_param (?b4 ''username''))
        (bind_param (?b4 ''email'')) demo_db = Inl (Unique [''users.email''])"
    by (simp add: insert_user_def demo_db_def obj_def Let_def)
  show ?thesis
    using database_failure_answers_400
      [where E = decimal_engine and now = "''2024-04-01 08:00:00''" and userId = "''1''"
         and b = ?b and db = wished_db and err = "NotNull ''wishlist.country_name''"
         and ?b2.0 = ?b2 and ?userId2.0 = "''1''" and ?countryCode2.0 = "''FR''"
         and ?db2.0 = new_database and ?err2.0 = "NoSuchTable ''wishlist''"
         and ?userId3.0 = "''1''" and ?countryCode3.0 = "''FR''"
         and ?db3.0 = new_database and ?err3.0 = "NoSuchTable ''wishlist''"
         and ?now4.0 = "''2024-04-01 08:00:00''" and ?b4.0 = ?b4 and ?db4.0 = demo_db
         and ?err4.0 = "Unique [''users.email'']"]
      1 2 3 4
    by (simp add: res_json_def)
qed

text \<open>
  C7. On a file that has the users table, GET /api/users/:id answers 200 with the row
  whose id the parameter reads as, and 200 with the empty object when there is no such
  row. The primary key makes that row the only one.
\<close>

theorem get_user_row_or_empty:
  assumes "users_table db = Some us" and "distinct (map users_id us)"
  shows "(u \<in> set us \<and> sql_eq (SInt (users_id u)) (numeric_affinity E (SText i))
            \<longrightarrow> get_user E i db = (db, res_json 200 (Row u)))
       \<and> ((\<forall>v\<in>set us. \<not> sql_eq (SInt (users_id v)) (numeric_affinity E (SText i)))
            \<longrightarrow> get_user E i db = (db, res_json 200 (Obj [])))"
proof (intro conjI impI)
  assume "u \<in> set us \<and> sql_eq (SInt (users_id u)) (numeric_affinity E (SText i))"
  then have u: "u \<in> set us" and p: "numeric_affinity E (SText i) = SInt (users_id u)"
    by (auto simp: sql_eq_def)
  have "find (\<lambda>v. sql_eq (SInt (users_id v)) (numeric_affinity E (SText i))) us
          = find (\<lambda>v. users_id v = users_id u) us"
    unfolding p by (simp add: sql_eq_def)
  also have "\<dots> = Some u"
    using assms(2) u by (rule find_primary_key)
  finally show "get_user E i db = (db, res_json 200 (Row u))"
    by (simp add: get_user_def select_user_def assms(1))
next
  assume "\<forall>v\<in>set us. \<not> sql_eq (SInt (users_id v)) (numeric_affinity E (SText i))"
  then have "find (\<lambda>v. sql_eq (SInt (users_id v)) (numeric_affinity E (SText i))) us = None"
    by (simp add: find_None_iff)
  then show "get_user E i db = (db, res_json 200 (Obj []))"
    by (simp add: get_user_def select_user_def assms(1))
qed

theorem get_user_row_or_empty_witness:
  "users_table demo_db = Some [\<lparr>users_id = 1, username = SText ''demo'',
       email = SText ''demo@example.com'', created_at = SText ''2024-01-01 09:00:00''\<rparr>]
   \<and> get_user decimal_engine ''1'' demo_db =
       (demo_db, \<lparr>status = 200, payload = Row \<lparr>users_id = 1, username = SText ''demo'',
          email = SText ''demo@example.com'', created_at = SText ''2024-01-01 09:00:00''\<rparr>\<rparr>)
   \<and> get_user decimal_engine ''7'' demo_db = (demo_db, \<lparr>status = 200, payload = Obj []\<rparr>)"
proof -
  let ?u = "\<lparr>users_id = 1, username = SText ''demo'',
       email = SText ''demo@example.com'', created_at = SText ''2024-01-01 09:00:00''\<rparr>"
  have t: "users_table demo_db = Some [?u]" by (simp add: demo_db_def)
  have d: "distinct (map users_id [?u])" by simp
  have 1: "?u \<in> set [?u] \<and> sql_eq (SInt (users_id ?u)) (numeric_affinity decimal_engine (SText ''1''))"
    by (simp add: sql_eq_def decimal_engine_def read_unsigned_def number_def Let_def)
  have 7: "\<forall>v\<in>set [?u]. \<not> sql_eq (SInt (users_id v)) (numeric_affinity decimal_engine (SText ''7''))"
    by (simp add: sql_eq_def decimal_engine_def read_unsigned_def number_def Let_def)
  show ?thesis
    using get_user_row_or_empty [OF t d, of ?u decimal_engine "''1''"]
          get_user_row_or_empty [OF t d, of ?u decimal_engine "''7''"] 1 7 t
    by (simp add: res_json_def)
qed

text \<open>
  C8. Each of the three proxy endpoints passes the data of the external source on with
  status 200 when the request to it succeeds. When it fails, /api/countries answers 500
  with \<^verbatim>\<open>Failed to fetch countries\<close>, /api/countries/search/:name answers 404 with
  \<^verbatim>\<open>Country not found\<close>, and /api/countries/region/:region answers 404 with
  \<^verbatim>\<open>Region not found\<close>.
\<close>

theorem countries_proxy:
  "(axios_get ''https://restcountries.com/v3.1/all'' = Resolved data
      \<longrightarrow> countries axios_get = (200, Passed data))
   \<and> (axios_get ''https://restcountries.com/v3.1/all'' = Rejected
      \<longrightarrow> countries axios_get = (500, Failed ''Failed to fetch countries''))
   \<and> (axios_get (''https://restcountries.com/v3.1/name/'' @ name) = Resolved data
      \<longrightarrow> countries_search axios_get name = (200, Passed data))
   \<and> (axios_get (''https://restcountries.com/v3.1/name/'' @ name) = Rejected
      \<longrightarrow> countries_search axios_get name = (404, Failed ''Country not found''))
   \<and> (axios_get (''https://restcountries.com/v3.1/region/'' @ region) = Resolved data
      \<longrightarrow> countries_region axios_get region = (200, Passed data))
   \<and> (axios_get (''https://restcountries.com/v3.1/region/'' @ region) = Rejected
      \<longrightarrow> countries_region axios_get region = (404, Failed ''Region not found''))"
  by (simp add: countries_def countries_search_def countries_region_def)

theorem countries_proxy_witness:
  "countries restcountries = (500, Failed ''Failed to fetch countries'')
   \<and> countries_search restcountries ''peru'' = (200, Passed ''PE'')
   \<and> countries_search restcountries ''atlantis'' = (404, Failed ''Country not found'')
   \<and> countries_region restcountries ''europe'' = (404, Failed ''Region not found'')"
  using countries_proxy [of restcountries "''PE''" "''peru''" "''europe''"]
        countries_proxy [of restcountries "''PE''" "''atlantis''" "''europe''"]
  by (simp add: restcountries_def)

text \<open>
  C9. PUT /api/wishlist/:userId/:countryCode for a user and country code that no row
  carries answers 200 with \<^verbatim>\<open>{updated: 0}\<close> and leaves the file as it was: nothing is
  inserted.
\<close>

theorem put_missing_reports_zero:
  assumes "wishlist_table db = Some ws"
    and "\<forall>w\<in>set ws. \<not> of_user_country E (SText userId) (SText countryCode) w"
  shows "put_wishlist E userId countryCode req_body db =
           (db, res_json 200 (Obj [(''updated'', JNum 0)]))"
proof -
  let ?P = "of_user_country E (SText userId) (SText countryCode)"
  let ?f = "\<lambda>w. if ?P w
              then w\<lparr>rating := numeric_affinity E (bind_param (req_body ''rating'')),
                     notes' := text_affinity E (bind_param (req_body ''notes''))\<rparr>
              else w"
  from assms(2) have none: "filter ?P ws = []"
    by (rule filter_none)
  from assms(2) have same: "map ?f ws = ws"
    by (simp add: map_idI)
  show ?thesis
    by (simp add: put_wishlist_def update_wishlist_def assms(1) none same
                  database_same_wishlist)
qed

theorem put_missing_reports_zero_witness:
  "wishlist_table wished_db = Some [france, japan]
   \<and> \<not> of_user_country decimal_engine (SText ''2'') (SText ''FR'') france
   \<and> \<not> of_user_country decimal_engine (SText ''2'') (SText ''FR'') japan
   \<and> put_wishlist decimal_engine ''2'' ''FR'' (obj [(''rating'', JNum 5), (''notes'', JStr ''soon'')])
        wished_db =
        (wished_db, \<lparr>status = 200, payload = Obj [(''updated'', JNum 0)]\<rparr>)"
proof -
  have t: "wishlist_table wished_db = Some [france, japan]"
    by (simp add: wished_db_def)
  have n: "\<forall>w\<in>set [france, japan]. \<not> of_user_country decimal_engine (SText ''2'') (SText ''FR'') w"
    by (simp add: of_user_country_def of_user_def sql_eq_def france_def japan_def decimal_engine_def read_unsigned_def number_def Let_def)
  show ?thesis
    using put_missing_reports_zero [OF t n] t n by (simp add: res_json_def)
qed

text \<open>
  C10. Running the initialization on a file that was initialized before, whatever
  happened to it in between, leaves the users table and the wishlist table with the
  rows they had. And whatever starts and requests a file has seen since it was created,
  it holds the seed user at most once.
\<close>

theorem initialize_idempotent:
  "users_table (initialize E t' (run E evs (initialize E t db)))
     = users_table (run E evs (initialize E t db))
   \<and> wishlist_table (initialize E t' (run E evs (initialize E t db)))
     = wishlist_table (run E evs (initialize E t db))
   \<and> length (demo_users (run E evs new_database)) \<le> 1"
proof -
  have "initialized (run E evs (initialize E t db))"
    by (rule run_invariant) (simp_all add: initialized_initialize initialized_after)
  then have "users_table (initialize E t' (run E evs (initialize E t db)))
               = users_table (run E evs (initialize E t db))"
    and "wishlist_table (initialize E t' (run E evs (initialize E t db)))
               = wishlist_table (run E evs (initialize E t db))"
    by (rule initialize_initialized)+
  moreover have "length (demo_users (run E evs new_database)) \<le> 1"
  proof -
    have "distinct (map username (user_rows (run E evs new_database)))"
      using users_keys_reachable [of E evs] by (simp add: users_keys_def)
    then show ?thesis
      unfolding demo_users_def by (rule at_most_one_with_key)
  qed
  ultimately show ?thesis by simp
qed

theorem initialize_idempotent_witness:
  "users_table (initialize decimal_engine ''2024-06-01 00:00:00'' wished_db) = users_table wished_db
   \<and> wishlist_table (initialize decimal_engine ''2024-06-01 00:00:00'' wished_db)
       = wishlist_table wished_db
   \<and> length (demo_users (run decimal_engine
        [Startup ''2024-01-01 09:00:00'', Startup ''2024-06-01 00:00:00''] new_database)) = 1"
proof -
  have "length (demo_users (run decimal_engine
        [Startup ''2024-01-01 09:00:00'', Startup ''2024-06-01 00:00:00''] new_database)) = 1"
    by (simp add: run_def initialize_def create_users_def create_wishlist_def insert_demo_def
                  new_database_def demo_users_def user_rows_def demo_taken_def
                  next_rowid_def decimal_engine_def read_unsigned_def number_def Let_def Let_def)
  then show ?thesis
    using initialize_idempotent [where E = decimal_engine and t' = "''2024-06-01 00:00:00''"
            and t = "''2024-01-01 09:00:00''" and db = new_database
            and evs = "[PostWishlist ''2024-02-01 10:00:00'' ''1''
         (obj [(''country_code'', JStr ''FR''), (''country_name'', JStr ''France''),
               (''rating'', JNum 4), (''notes'', JStr ''Paris'')]),
       PostWishlist ''2024-03-01 10:00:00'' ''1''
         (obj [(''country_code'', JStr ''JP''), (''country_name'', JStr ''Japan'')])]"]
    unfolding wished_db_reachable [symmetric] by simp
qed

end
